theory Spec2Isabelle
  imports Main "HOL-Library.Word" "HOL-Library.Sublist"
begin

unbundle bit_operations_syntax

section \<open>Password hash comparison: \<open>hash/hash_comparator.go\<close>\<close>

text \<open>
  The Go file compares a password with a stored, encoded hash. Byte slices and Go strings
  are both sequences of bytes and the conversions between them keep every byte, so both
  are modelled as \<open>string\<close> (a list of 8-bit characters). A Go \<open>error\<close> result is an
  \<open>error option\<close>, \<open>None\<close> for \<open>nil\<close>; a function returning values and an error returns
  a sum, \<open>Inl\<close> for the error.
\<close>

subsection \<open>Errors\<close>

text \<open>
  The errors of package \<open>fmt\<close>'s scanner that the formats of this file can produce.
\<close>

datatype scan_error =
    ScanEOF
  | ScanUnexpectedEOF
  | ScanInputDoesNotMatchFormat
  | ScanUnexpectedNewline
  | ScanExpectedInteger
  | ScanValueOutOfRange
  | ScanIntegerOverflow
  | ScanBadVerb
  | ScanTooFewOperands

text \<open>
  \<open>ErrUnknownHashAlgorithm\<close> is declared in the file. \<open>ErrInvalidHash\<close>,
  \<open>ErrIncompatibleVersion\<close> and \<open>ErrMismatchedHashAndPassword\<close> are package variables
  declared in another file of the package; each is a separate error value.
  \<open>ErrPasswordTooLong\<close> is the error of \<open>validateBcryptPasswordLength\<close>. The other
  constructors carry the errors that come back from libraries: \<open>fmt.Sscanf\<close>,
  \<open>base64\<close> (a \<open>CorruptInputError\<close>, its offset left out), \<open>bcrypt\<close> and \<open>scrypt\<close>
  (identified by their message). \<open>errors.WithStack\<close> only attaches a stack trace and is
  not modelled.
\<close>

datatype error =
    ErrUnknownHashAlgorithm
  | ErrInvalidHash
  | ErrIncompatibleVersion
  | ErrMismatchedHashAndPassword
  | ErrPasswordTooLong
  | ErrScan scan_error
  | ErrCorruptInput
  | ErrBcrypt string
  | ErrScrypt string

subsection \<open>Regular expressions\<close>

text \<open>
  The eight patterns of the file use literals, a character class, \<open>?\<close>, a counted
  repetition \<open>{m,n}\<close> and a trailing \<open>.*\<close>, and every one starts with \<open>^\<close>. A pattern is
  the list of its items after the \<open>^\<close>; \<open>match_here\<close> decides whether the pattern
  matches a prefix of the text, trying every alternative.
\<close>

datatype re =
    Lit char
  | Class string
  | Opt re
  | Rep re nat nat
  | DotStar

fun weight :: "re \<Rightarrow> nat" where
  "weight (Lit c) = 1"
| "weight (Class cs) = 1"
| "weight (Opt r) = Suc (weight r)"
| "weight (Rep r m n) = Suc (max m n * Suc (weight r))"
| "weight DotStar = 1"

function match_here :: "re list \<Rightarrow> string \<Rightarrow> bool" where
  "match_here [] s = True"
| "match_here (Lit c # rs) s =
     (case s of [] \<Rightarrow> False | x # xs \<Rightarrow> if x = c then match_here rs xs else False)"
| "match_here (Class cs # rs) s =
     (case s of [] \<Rightarrow> False | x # xs \<Rightarrow> if x \<in> set cs then match_here rs xs else False)"
| "match_here (Opt r # rs) s =
     (if match_here (r # rs) s then True else match_here rs s)"
| "match_here (Rep r m n # rs) s =
     (if 0 < m then match_here (r # Rep r (m - 1) (n - 1) # rs) s
      else if 0 < n then
        (if match_here (r # Rep r 0 (n - 1) # rs) s then True else match_here rs s)
      else match_here rs s)"
| "match_here (DotStar # rs) s =
     (if match_here rs s then True
      else (case s of [] \<Rightarrow> False
            | x # xs \<Rightarrow> if x = CHR 0x0A then False else match_here (DotStar # rs) xs))"
  by pat_completeness auto
termination
  apply (relation "measures [\<lambda>(rs, s). sum_list (map weight rs), \<lambda>(rs, s). length s]")
  apply simp_all
  subgoal for r m n
  proof -
    assume "0 < m"
    then have "Suc (max (m - Suc 0) (n - Suc 0)) \<le> max m n"
      by (cases m; cases n) auto
    then have "Suc (max (m - Suc 0) (n - Suc 0)) * Suc (weight r) \<le> max m n * Suc (weight r)"
      by (rule mult_le_mono1)
    then show ?thesis by simp
  qed
  subgoal for r m n
  proof -
    assume "0 < n"
    then have "Suc (n - Suc 0) * weight r \<le> n * weight r"
      by (intro mult_le_mono1) simp
    then show ?thesis by simp
  qed
  done

declare match_here.simps [simp del]

text \<open>\<open>Regexp.Match\<close> for a pattern that starts with \<open>^\<close>.\<close>

definition Match :: "re list \<Rightarrow> string \<Rightarrow> bool" where
  "Match pat b = match_here pat b"

definition lits :: "string \<Rightarrow> re list" where
  "lits s = map Lit s"

definition isBcryptHash :: "re list" where
  "isBcryptHash = [Lit CHR ''$'', Lit CHR ''2'', Opt (Class ''abzy''), Lit CHR ''$'']"

definition isArgon2idHash :: "re list" where
  "isArgon2idHash = lits ''$argon2id$''"

definition isArgon2iHash :: "re list" where
  "isArgon2iHash = lits ''$argon2i$''"

definition isPbkdf2Hash :: "re list" where
  "isPbkdf2Hash = lits ''$pbkdf2-sha'' @ [Rep (Class ''0123456789'') 1 3, Lit CHR ''$'']"

definition isScryptHash :: "re list" where
  "isScryptHash = lits ''$scrypt$''"

definition isSSHAHash :: "re list" where
  "isSSHAHash = lits ''{SSHA}'' @ [DotStar]"

definition isSSHA256Hash :: "re list" where
  "isSSHA256Hash = lits ''{SSHA256}'' @ [DotStar]"

definition isSSHA512Hash :: "re list" where
  "isSSHA512Hash = lits ''{SSHA512}'' @ [DotStar]"

definition IsBcryptHash :: "string \<Rightarrow> bool" where
  "IsBcryptHash hash = Match isBcryptHash hash"

definition IsArgon2idHash :: "string \<Rightarrow> bool" where
  "IsArgon2idHash hash = Match isArgon2idHash hash"

definition IsArgon2iHash :: "string \<Rightarrow> bool" where
  "IsArgon2iHash hash = Match isArgon2iHash hash"

definition IsPbkdf2Hash :: "string \<Rightarrow> bool" where
  "IsPbkdf2Hash hash = Match isPbkdf2Hash hash"

definition IsScryptHash :: "string \<Rightarrow> bool" where
  "IsScryptHash hash = Match isScryptHash hash"

definition IsSSHAHash :: "string \<Rightarrow> bool" where
  "IsSSHAHash hash = Match isSSHAHash hash"

definition IsSSHA256Hash :: "string \<Rightarrow> bool" where
  "IsSSHA256Hash hash = Match isSSHA256Hash hash"

definition IsSSHA512Hash :: "string \<Rightarrow> bool" where
  "IsSSHA512Hash hash = Match isSSHA512Hash hash"

definition IsValidHashFormat :: "string \<Rightarrow> bool" where
  "IsValidHashFormat hash =
     (if IsArgon2iHash hash \<or> IsArgon2idHash hash \<or> IsBcryptHash hash \<or> IsPbkdf2Hash hash \<or>
         IsScryptHash hash \<or> IsSSHAHash hash \<or> IsSSHA256Hash hash \<or> IsSSHA512Hash hash
      then True else False)"

subsection \<open>Package \<open>strings\<close>\<close>

text \<open>
  \<open>strings.Split(s, sep)\<close> for a separator of one byte: the pieces of \<open>s\<close> between the
  occurrences of the separator, one more than there are occurrences.
\<close>

fun Split :: "string \<Rightarrow> char \<Rightarrow> string list" where
  "Split [] sep = [[]]"
| "Split (c # cs) sep =
     (if c = sep then [] # Split cs sep
      else (case Split cs sep of [] \<Rightarrow> [[c]] | p # ps \<Rightarrow> (c # p) # ps))"

text \<open>
  \<open>strings.SplitN(s, sep, 2)\<close> for a separator of one byte: \<open>s\<close> is cut at the first
  occurrence only, and is returned whole when there is none.
\<close>

definition SplitN2 :: "string \<Rightarrow> char \<Rightarrow> string list" where
  "SplitN2 s sep =
     (if sep \<in> set s
      then [takeWhile (\<lambda>c. c \<noteq> sep) s, tl (dropWhile (\<lambda>c. c \<noteq> sep) s)]
      else [s])"

subsection \<open>Package \<open>fmt\<close>: \<open>Sscanf\<close>\<close>

text \<open>
  The encodings of the white space runes of \<open>fmt\<close>'s \<open>isSpace\<close>, the newline apart:
  U+0009, U+000B to U+000D, U+0020, U+0085, U+00A0, U+1680, U+2000 to U+200A, U+2028,
  U+2029, U+202F, U+205F and U+3000, in UTF-8.
\<close>

definition space_runes :: "string list" where
  "space_runes =
     [[CHR 0x09], [CHR 0x0B], [CHR 0x0C], [CHR 0x0D], [CHR 0x20],
      [CHR 0xC2, CHR 0x85], [CHR 0xC2, CHR 0xA0], [CHR 0xE1, CHR 0x9A, CHR 0x80],
      [CHR 0xE2, CHR 0x80, CHR 0x80], [CHR 0xE2, CHR 0x80, CHR 0x81],
      [CHR 0xE2, CHR 0x80, CHR 0x82], [CHR 0xE2, CHR 0x80, CHR 0x83],
      [CHR 0xE2, CHR 0x80, CHR 0x84], [CHR 0xE2, CHR 0x80, CHR 0x85],
      [CHR 0xE2, CHR 0x80, CHR 0x86], [CHR 0xE2, CHR 0x80, CHR 0x87],
      [CHR 0xE2, CHR 0x80, CHR 0x88], [CHR 0xE2, CHR 0x80, CHR 0x89],
      [CHR 0xE2, CHR 0x80, CHR 0x8A], [CHR 0xE2, CHR 0x80, CHR 0xA8],
      [CHR 0xE2, CHR 0x80, CHR 0xA9], [CHR 0xE2, CHR 0x80, CHR 0xAF],
      [CHR 0xE2, CHR 0x81, CHR 0x9F], [CHR 0xE3, CHR 0x80, CHR 0x80]]"

text \<open>The number of bytes of the white space rune at the head of the input, 0 for none.\<close>

definition space_width :: "string \<Rightarrow> nat" where
  "space_width s =
     (case find (\<lambda>r. take (length r) s = r) space_runes of None \<Rightarrow> 0 | Some r \<Rightarrow> length r)"

text \<open>
  \<open>(*ss).SkipSpace\<close> as \<open>Sscanf\<close> runs it (\<open>nlIsSpace\<close> is false): white space is
  skipped, a newline is an error.
\<close>

function SkipSpace :: "string \<Rightarrow> scan_error + string" where
  "SkipSpace s =
     (if s = [] then Inr []
      else if hd s = CHR 0x0A then Inl ScanUnexpectedNewline
      else if space_width s = 0 then Inr s
      else SkipSpace (drop (space_width s) s))"
  by pat_completeness auto
termination
  by (relation "measure length") auto

declare SkipSpace.simps [simp del]

text \<open>
  The operand a \<open>%d\<close> verb stores into: a signed or an unsigned integer of the given
  number of bits (\<open>*uint32\<close> is \<open>Unsigned 32\<close>; \<open>*int\<close> is \<open>Signed 64\<close>, the size
  of \<open>int\<close> on a 64-bit platform).
\<close>

datatype operand = Signed nat | Unsigned nat

definition decimalDigits :: string where
  "decimalDigits = ''0123456789''"

definition is_digit :: "char \<Rightarrow> bool" where
  "is_digit c = (c \<in> set decimalDigits)"

text \<open>The value of a token of decimal digits (\<open>strconv.ParseUint\<close> in base 10).\<close>

definition digits_value :: "string \<Rightarrow> int" where
  "digits_value ds = foldl (\<lambda>n c. 10 * n + (of_char c - of_char CHR ''0'')) 0 ds"

text \<open>
  \<open>(*ss).scanInt\<close> and \<open>(*ss).scanUint\<close> for the verb \<open>d\<close>, after the white space is
  skipped: the end of the input is \<open>io.EOF\<close>; a signed operand accepts one sign; at
  least one digit must follow; the token must fit 64 bits for \<open>strconv\<close> and the
  operand's size for \<open>fmt\<close>. The scanned value and the rest of the input are returned.
\<close>

definition scanNumber :: "operand \<Rightarrow> string \<Rightarrow> scan_error + (int \<times> string)" where
  "scanNumber opd s =
     (if s = [] then Inl ScanEOF
      else
        let signed = (case opd of Signed _ \<Rightarrow> True | Unsigned _ \<Rightarrow> False);
            bits = (case opd of Signed n \<Rightarrow> n | Unsigned n \<Rightarrow> n);
            has_sign = (signed \<and> hd s \<in> set ''+-'');
            s1 = (if has_sign then tl s else s);
            tok = takeWhile is_digit s1;
            rest = dropWhile is_digit s1;
            v = (if has_sign \<and> hd s = CHR ''-'' then - digits_value tok
                 else digits_value tok)
        in if s1 = [] then Inl ScanEOF
           else if tok = [] then Inl ScanExpectedInteger
           else if signed then
             (if v < - (2 ^ 63) \<or> 2 ^ 63 \<le> v then Inl ScanValueOutOfRange
              else if v < - (2 ^ (bits - 1)) \<or> 2 ^ (bits - 1) \<le> v then Inl ScanIntegerOverflow
              else Inr (v, rest))
           else
             (if 2 ^ 64 \<le> v then Inl ScanValueOutOfRange
              else if 2 ^ bits \<le> v then Inl ScanIntegerOverflow
              else Inr (v, rest)))"

text \<open>
  \<open>(*ss).doScanf\<close> for a format made of literal bytes other than white space and of
  \<open>%d\<close> verbs, which is what the formats of this file are made of. A literal byte must be
  the next byte of the input; a verb skips white space and scans a number into the next
  operand. Input left over after the format is not looked at.
\<close>

fun doScanf :: "string \<Rightarrow> string \<Rightarrow> operand list \<Rightarrow> scan_error + int list" where
  "doScanf [] s a = Inr []"
| "doScanf (f # fs) s a =
     (if f = CHR ''%'' then
        (case fs of
           [] \<Rightarrow> Inl ScanBadVerb
         | c # fs' \<Rightarrow>
             if c \<noteq> CHR ''d'' then Inl ScanBadVerb
             else (case SkipSpace s of
                     Inl err \<Rightarrow> Inl err
                   | Inr s1 \<Rightarrow>
                       (case a of
                          [] \<Rightarrow> Inl ScanTooFewOperands
                        | arg # a' \<Rightarrow>
                            (case scanNumber arg s1 of
                               Inl err \<Rightarrow> Inl err
                             | Inr (v, s2) \<Rightarrow>
                                 (case doScanf fs' s2 a' of
                                    Inl err \<Rightarrow> Inl err
                                  | Inr vs \<Rightarrow> Inr (v # vs))))))
      else
        (case s of
           [] \<Rightarrow> Inl ScanUnexpectedEOF
         | c # cs \<Rightarrow>
             if c = f then doScanf fs cs a else Inl ScanInputDoesNotMatchFormat))"

definition Sscanf :: "string \<Rightarrow> string \<Rightarrow> operand list \<Rightarrow> scan_error + int list" where
  "Sscanf str format a = doScanf format str a"

subsection \<open>Package \<open>encoding/base64\<close>\<close>

record encoding =
  encode :: string
  padChar :: "char option"
  strict :: bool

definition encodeStd :: string where
  "encodeStd = ''ABCDEFGHIJKLMNOPQRSTUVWXYZabcdefghijklmnopqrstuvwxyz0123456789+/''"

definition StdEncoding :: encoding where
  "StdEncoding = \<lparr>encode = encodeStd, padChar = Some CHR ''='', strict = False\<rparr>"

definition RawStdEncoding :: encoding where
  "RawStdEncoding = StdEncoding\<lparr>padChar := None\<rparr>"

definition Strict :: "encoding \<Rightarrow> encoding" where
  "Strict enc = enc\<lparr>strict := True\<rparr>"

text \<open>The 6-bit value of a byte of the alphabet, \<open>None\<close> for any other byte.\<close>

definition decodeMap :: "encoding \<Rightarrow> char \<Rightarrow> int option" where
  "decodeMap enc c = map_of (zip (encode enc) [0 .. 63]) c"

text \<open>
  A last quantum of two characters gives one byte and one of three gives two; in strict
  mode the bits that are left over must be zero.
\<close>

definition quantum2 :: "encoding \<Rightarrow> int \<Rightarrow> int \<Rightarrow> error + string" where
  "quantum2 enc x y =
     (if strict enc \<and> y mod 16 \<noteq> 0 then Inl ErrCorruptInput
      else Inr [char_of (x * 4 + y div 16)])"

definition quantum3 :: "encoding \<Rightarrow> int \<Rightarrow> int \<Rightarrow> int \<Rightarrow> error + string" where
  "quantum3 enc x y z =
     (if strict enc \<and> z mod 4 \<noteq> 0 then Inl ErrCorruptInput
      else Inr [char_of (x * 4 + y div 16), char_of ((y mod 16) * 16 + z div 4)])"

definition quantum4 :: "int \<Rightarrow> int \<Rightarrow> int \<Rightarrow> int \<Rightarrow> string" where
  "quantum4 x y z w =
     [char_of (x * 4 + y div 16), char_of ((y mod 16) * 16 + z div 4),
      char_of ((z mod 4) * 64 + w)]"

text \<open>
  \<open>(*Encoding).Decode\<close> on input without line breaks, four characters at a time
  (\<open>decodeQuantum\<close>). A byte outside the alphabet is corrupt input unless it is the
  padding that completes the last quantum; without padding the last quantum may have two
  or three characters, with padding it has four.
\<close>

fun decodeQuanta :: "encoding \<Rightarrow> string \<Rightarrow> error + string" where
  "decodeQuanta enc [] = Inr []"
| "decodeQuanta enc [a] = Inl ErrCorruptInput"
| "decodeQuanta enc [a, b] =
     (if padChar enc \<noteq> None then Inl ErrCorruptInput
      else (case (decodeMap enc a, decodeMap enc b) of
              (Some x, Some y) \<Rightarrow> quantum2 enc x y
            | _ \<Rightarrow> Inl ErrCorruptInput))"
| "decodeQuanta enc [a, b, c] =
     (if padChar enc \<noteq> None then Inl ErrCorruptInput
      else (case (decodeMap enc a, decodeMap enc b, decodeMap enc c) of
              (Some x, Some y, Some z) \<Rightarrow> quantum3 enc x y z
            | _ \<Rightarrow> Inl ErrCorruptInput))"
| "decodeQuanta enc (a # b # c # d # rest) =
     (case (decodeMap enc a, decodeMap enc b) of
        (Some x, Some y) \<Rightarrow>
          (case decodeMap enc c of
             Some z \<Rightarrow>
               (case decodeMap enc d of
                  Some w \<Rightarrow>
                    (case decodeQuanta enc rest of
                       Inl err \<Rightarrow> Inl err
                     | Inr bs \<Rightarrow> Inr (quantum4 x y z w @ bs))
                | None \<Rightarrow>
                    if Some d = padChar enc \<and> rest = [] then quantum3 enc x y z
                    else Inl ErrCorruptInput)
           | None \<Rightarrow>
               if Some c = padChar enc \<and> Some d = padChar enc \<and> rest = []
               then quantum2 enc x y
               else Inl ErrCorruptInput)
      | _ \<Rightarrow> Inl ErrCorruptInput)"

text \<open>\<open>(*Encoding).DecodeString\<close>: carriage returns and line feeds are skipped.\<close>

definition DecodeString :: "encoding \<Rightarrow> string \<Rightarrow> error + string" where
  "DecodeString enc s = decodeQuanta enc (filter (\<lambda>c. c \<noteq> CHR 0x0D \<and> c \<noteq> CHR 0x0A) s)"

subsection \<open>Package \<open>crypto/subtle\<close>\<close>

definition ConstantTimeCompare :: "string \<Rightarrow> string \<Rightarrow> int" where
  "ConstantTimeCompare x y = (if length x \<noteq> length y then 0 else if x = y then 1 else 0)"

subsection \<open>Parameter records\<close>

text \<open>
  \<open>config.Argon2\<close>, \<open>Pbkdf2\<close> and \<open>Scrypt\<close> are declared in other files. The widths are
  those the file relies on: \<open>SaltLength\<close> and \<open>KeyLength\<close> are assigned a \<open>uint32\<close>;
  \<open>Iterations\<close>, \<open>Parallelism\<close> and \<open>KeyLength\<close> of \<open>config.Argon2\<close> are passed to
  \<open>argon2.IDKey\<close> as its \<open>uint32\<close>, \<open>uint8\<close> and \<open>uint32\<close> arguments unconverted;
  \<open>Memory\<close> is a 64-bit byte size that the call converts with \<open>uint32(p.Memory)\<close>.
\<close>

record Argon2 =
  Memory :: "64 word"
  Iterations :: "32 word"
  Parallelism :: "8 word"
  SaltLength :: "32 word"
  KeyLength :: "32 word"

record Pbkdf2 =
  Algorithm :: string
  Iterations :: "32 word"
  SaltLength :: "32 word"
  KeyLength :: "32 word"

record Scrypt =
  Cost :: "32 word"
  Block :: "32 word"
  Parrellization :: "32 word"
  SaltLength :: "32 word"
  KeyLength :: "32 word"

subsection \<open>The cryptographic libraries\<close>

text \<open>
  The key derivation functions and the validators of the salted digests belong to
  libraries outside the repository. The comparators take them as a record of functions,
  so that what is proved of a comparator holds whatever the primitives compute.
  \<open>getPseudorandomFunctionForPbkdf2\<close> is a function of the package declared in another
  file; the file uses its one result as the hash constructor of \<open>pbkdf2.Key\<close>, of the
  type \<open>'h\<close> here. \<open>scrypt_derive\<close> is \<open>scrypt.Key\<close> after its first parameter check.
\<close>

record 'h primitives =
  bcrypt_CompareHashAndPassword :: "string \<Rightarrow> string \<Rightarrow> string option"
  argon2_IDKey :: "string \<Rightarrow> string \<Rightarrow> 32 word \<Rightarrow> 32 word \<Rightarrow> 8 word \<Rightarrow> 32 word \<Rightarrow> string"
  argon2_Key :: "string \<Rightarrow> string \<Rightarrow> 32 word \<Rightarrow> 32 word \<Rightarrow> 8 word \<Rightarrow> 32 word \<Rightarrow> string"
  getPseudorandomFunctionForPbkdf2 :: "string \<Rightarrow> 'h"
  pbkdf2_Key :: "string \<Rightarrow> string \<Rightarrow> int \<Rightarrow> int \<Rightarrow> 'h \<Rightarrow> string"
  scrypt_derive :: "string \<Rightarrow> string \<Rightarrow> int \<Rightarrow> int \<Rightarrow> int \<Rightarrow> int \<Rightarrow> string + string"
  ssha_Validate :: "string \<Rightarrow> string \<Rightarrow> bool \<times> string option"
  ssha256_Validate :: "string \<Rightarrow> string \<Rightarrow> bool \<times> string option"
  ssha512_Validate :: "string \<Rightarrow> string \<Rightarrow> bool \<times> string option"

text \<open>
  \<open>argon2.Version\<close>, the one version of Argon2 the library implements: \<open>0x13\<close>.
\<close>

definition argon2_Version :: int where
  "argon2_Version = 0x13"

text \<open>
  \<open>scrypt.Key\<close> starts by checking its cost parameter, as its documentation requires:
  \<open>N\<close> must be a power of two greater than 1.
\<close>

definition scrypt_Key ::
  "'h primitives \<Rightarrow> string \<Rightarrow> string \<Rightarrow> int \<Rightarrow> int \<Rightarrow> int \<Rightarrow> int \<Rightarrow> string + string" where
  "scrypt_Key L password salt N r p keyLen =
     (if N \<le> 1 \<or> N AND (N - 1) \<noteq> 0 then Inl ''scrypt: N must be > 1 and a power of 2''
      else scrypt_derive L password salt N r p keyLen)"

subsection \<open>Decoders\<close>

definition decodeArgon2idHash :: "string \<Rightarrow> error + (Argon2 \<times> string \<times> string)" where
  "decodeArgon2idHash encodedHash =
     (let parts = Split encodedHash CHR ''$'' in
      if length parts \<noteq> 6 then Inl ErrInvalidHash
      else
        (case Sscanf (parts ! 2) ''v=%d'' [Signed 64] of
           Inl err \<Rightarrow> Inl (ErrScan err)
         | Inr vs \<Rightarrow>
             let version = vs ! 0 in
             if version \<noteq> argon2_Version then Inl ErrIncompatibleVersion
             else
               (case Sscanf (parts ! 3) ''m=%d,t=%d,p=%d''
                       [Unsigned 64, Unsigned 32, Unsigned 8] of
                  Inl err \<Rightarrow> Inl (ErrScan err)
                | Inr ms \<Rightarrow>
                    let p = \<lparr>Memory = word_of_int (ms ! 0),
                             Iterations = word_of_int (ms ! 1),
                             Parallelism = word_of_int (ms ! 2),
                             SaltLength = 0, KeyLength = 0\<rparr> in
                    (case DecodeString (Strict RawStdEncoding) (parts ! 4) of
                       Inl err \<Rightarrow> Inl err
                     | Inr salt \<Rightarrow>
                         let p = p\<lparr>Argon2.SaltLength := word_of_nat (length salt)\<rparr> in
                         (case DecodeString (Strict RawStdEncoding) (parts ! 5) of
                            Inl err \<Rightarrow> Inl err
                          | Inr hash \<Rightarrow>
                              let p = p\<lparr>Argon2.KeyLength := word_of_nat (length hash)\<rparr>
                              in Inr (p, salt, hash))))))"

definition decodePbkdf2Hash :: "string \<Rightarrow> error + (Pbkdf2 \<times> string \<times> string)" where
  "decodePbkdf2Hash encodedHash =
     (let parts = Split encodedHash CHR ''$'' in
      if length parts \<noteq> 5 then Inl ErrInvalidHash
      else
        let digestParts = SplitN2 (parts ! 1) CHR ''-'' in
        if length digestParts \<noteq> 2 then Inl ErrInvalidHash
        else
          (case Sscanf (parts ! 2) ''i=%d,l=%d'' [Unsigned 32, Unsigned 32] of
             Inl err \<Rightarrow> Inl (ErrScan err)
           | Inr vs \<Rightarrow>
               let p = \<lparr>Algorithm = digestParts ! 1,
                        Iterations = word_of_int (vs ! 0),
                        SaltLength = 0,
                        KeyLength = word_of_int (vs ! 1)\<rparr> in
               (case DecodeString (Strict RawStdEncoding) (parts ! 3) of
                  Inl err \<Rightarrow> Inl err
                | Inr salt \<Rightarrow>
                    let p = p\<lparr>Pbkdf2.SaltLength := word_of_nat (length salt)\<rparr> in
                    (case DecodeString (Strict RawStdEncoding) (parts ! 4) of
                       Inl err \<Rightarrow> Inl err
                     | Inr hash \<Rightarrow>
                         let p = p\<lparr>Pbkdf2.KeyLength := word_of_nat (length hash)\<rparr>
                         in Inr (p, salt, hash)))))"

definition decodeScryptHash :: "string \<Rightarrow> error + (Scrypt \<times> string \<times> string)" where
  "decodeScryptHash encodedHash =
     (let parts = Split encodedHash CHR ''$'' in
      if length parts \<noteq> 5 then Inl ErrInvalidHash
      else
        (case Sscanf (parts ! 2) ''ln=%d,r=%d,p=%d''
                [Unsigned 32, Unsigned 32, Unsigned 32] of
           Inl err \<Rightarrow> Inl (ErrScan err)
         | Inr vs \<Rightarrow>
             let p = \<lparr>Cost = word_of_int (vs ! 0),
                      Block = word_of_int (vs ! 1),
                      Parrellization = word_of_int (vs ! 2),
                      SaltLength = 0, KeyLength = 0\<rparr> in
             (case DecodeString (Strict StdEncoding) (parts ! 3) of
                Inl err \<Rightarrow> Inl err
              | Inr salt \<Rightarrow>
                  let p = p\<lparr>Scrypt.SaltLength := word_of_nat (length salt)\<rparr> in
                  (case DecodeString (Strict StdEncoding) (parts ! 4) of
                     Inl err \<Rightarrow> Inl err
                   | Inr hash \<Rightarrow>
                       let p = p\<lparr>Scrypt.KeyLength := word_of_nat (length hash)\<rparr>
                       in Inr (p, salt, hash)))))"

subsection \<open>Comparators\<close>

text \<open>
  Modelled from the spec: \<open>validateBcryptPasswordLength\<close> is declared in another file of
  the package. The spec has bcrypt inputs of more than 72 bytes rejected as too long
  before the library is called.
\<close>

definition validateBcryptPasswordLength :: "string \<Rightarrow> error option" where
  "validateBcryptPasswordLength password =
     (if 72 < length password then Some ErrPasswordTooLong else None)"

definition CompareBcrypt :: "'h primitives \<Rightarrow> string \<Rightarrow> string \<Rightarrow> error option" where
  "CompareBcrypt L password hash =
     (case validateBcryptPasswordLength password of
        Some err \<Rightarrow> Some err
      | None \<Rightarrow>
          (case bcrypt_CompareHashAndPassword L hash password of
             Some err \<Rightarrow> Some (ErrBcrypt err)
           | None \<Rightarrow> None))"

definition CompareArgon2id :: "'h primitives \<Rightarrow> string \<Rightarrow> string \<Rightarrow> error option" where
  "CompareArgon2id L password hash =
     (case decodeArgon2idHash hash of
        Inl err \<Rightarrow> Some err
      | Inr (p, salt, hash) \<Rightarrow>
          let otherHash = argon2_IDKey L password salt (Argon2.Iterations p)
                            (ucast (Memory p)) (Parallelism p) (Argon2.KeyLength p) in
          if ConstantTimeCompare hash otherHash = 1 then None
          else Some ErrMismatchedHashAndPassword)"

definition CompareArgon2i :: "'h primitives \<Rightarrow> string \<Rightarrow> string \<Rightarrow> error option" where
  "CompareArgon2i L password hash =
     (case decodeArgon2idHash hash of
        Inl err \<Rightarrow> Some err
      | Inr (p, salt, hash) \<Rightarrow>
          let otherHash = argon2_Key L password salt (Argon2.Iterations p)
                            (ucast (Memory p)) (Parallelism p) (Argon2.KeyLength p) in
          if ConstantTimeCompare hash otherHash = 1 then None
          else Some ErrMismatchedHashAndPassword)"

definition ComparePbkdf2 :: "'h primitives \<Rightarrow> string \<Rightarrow> string \<Rightarrow> error option" where
  "ComparePbkdf2 L password hash =
     (case decodePbkdf2Hash hash of
        Inl err \<Rightarrow> Some err
      | Inr (p, salt, hash) \<Rightarrow>
          let otherHash = pbkdf2_Key L password salt (uint (Pbkdf2.Iterations p))
                            (uint (Pbkdf2.KeyLength p))
                            (getPseudorandomFunctionForPbkdf2 L (Algorithm p)) in
          if ConstantTimeCompare hash otherHash = 1 then None
          else Some ErrMismatchedHashAndPassword)"

definition CompareScrypt :: "'h primitives \<Rightarrow> string \<Rightarrow> string \<Rightarrow> error option" where
  "CompareScrypt L password hash =
     (case decodeScryptHash hash of
        Inl err \<Rightarrow> Some err
      | Inr (p, salt, hash) \<Rightarrow>
          (case scrypt_Key L password salt (uint (Cost p)) (uint (Block p))
                  (uint (Parrellization p)) (uint (Scrypt.KeyLength p)) of
             Inl err \<Rightarrow> Some (ErrScrypt err)
           | Inr otherHash \<Rightarrow>
               if ConstantTimeCompare hash otherHash = 1 then None
               else Some ErrMismatchedHashAndPassword))"

definition CompareSSHA :: "'h primitives \<Rightarrow> string \<Rightarrow> string \<Rightarrow> error option" where
  "CompareSSHA L password hash =
     (case snd (ssha_Validate L password hash) of
        Some err \<Rightarrow> Some ErrMismatchedHashAndPassword
      | None \<Rightarrow> None)"

definition CompareSSHA256 :: "'h primitives \<Rightarrow> string \<Rightarrow> string \<Rightarrow> error option" where
  "CompareSSHA256 L password hash =
     (case snd (ssha256_Validate L password hash) of
        Some err \<Rightarrow> Some ErrMismatchedHashAndPassword
      | None \<Rightarrow> None)"

definition CompareSSHA512 :: "'h primitives \<Rightarrow> string \<Rightarrow> string \<Rightarrow> error option" where
  "CompareSSHA512 L password hash =
     (case snd (ssha512_Validate L password hash) of
        Some err \<Rightarrow> Some ErrMismatchedHashAndPassword
      | None \<Rightarrow> None)"

subsection \<open>The dispatcher\<close>

definition Compare :: "'h primitives \<Rightarrow> string \<Rightarrow> string \<Rightarrow> error option" where
  "Compare L password hash =
     (if IsBcryptHash hash then CompareBcrypt L password hash
      else if IsArgon2idHash hash then CompareArgon2id L password hash
      else if IsArgon2iHash hash then CompareArgon2i L password hash
      else if IsPbkdf2Hash hash then ComparePbkdf2 L password hash
      else if IsScryptHash hash then CompareScrypt L password hash
      else if IsSSHAHash hash then CompareSSHA L password hash
      else if IsSSHA256Hash hash then CompareSSHA256 L password hash
      else if IsSSHA512Hash hash then CompareSSHA512 L password hash
      else Some ErrUnknownHashAlgorithm)"

subsection \<open>The dispatcher as the specification words it\<close>

text \<open>
  The specification describes the dispatcher as a table of schemes in a fixed priority
  order, searched for the first scheme whose predicate holds. \<open>compareAny\<close> follows
  these words; \<open>Compare\<close> above follows the code.
\<close>

definition scheme_table ::
  "'h primitives \<Rightarrow> ((string \<Rightarrow> bool) \<times> (string \<Rightarrow> string \<Rightarrow> error option)) list" where
  "scheme_table L =
     [(IsBcryptHash, CompareBcrypt L),
      (IsArgon2idHash, CompareArgon2id L),
      (IsArgon2iHash, CompareArgon2i L),
      (IsPbkdf2Hash, ComparePbkdf2 L),
      (IsScryptHash, CompareScrypt L),
      (IsSSHAHash, CompareSSHA L),
      (IsSSHA256Hash, CompareSSHA256 L),
      (IsSSHA512Hash, CompareSSHA512 L)]"

definition compareAny :: "'h primitives \<Rightarrow> string \<Rightarrow> string \<Rightarrow> error option" where
  "compareAny L password encoded =
     (case find (\<lambda>scheme. fst scheme encoded) (scheme_table L) of
        None \<Rightarrow> Some ErrUnknownHashAlgorithm
      | Some scheme \<Rightarrow> snd scheme password encoded)"

subsection \<open>A stand-in for the libraries\<close>

text \<open>
  What is proved below of a comparator holds for every record of primitives. To run such
  a theorem on a concrete input, \<open>fake\<close> stands in for the libraries: its key derivation
  functions return zero bytes of the length asked for, and its bcrypt comparison and its
  validators accept nothing.
\<close>

definition fake :: "string primitives" where
  "fake =
     \<lparr>bcrypt_CompareHashAndPassword =
        (\<lambda>hashedPassword password.
           Some ''crypto/bcrypt: hashedPassword is not the hash of the given password''),
      argon2_IDKey =
        (\<lambda>password salt time memory threads keyLen. replicate (unat keyLen) (CHR 0x00)),
      argon2_Key =
        (\<lambda>password salt time memory threads keyLen. replicate (unat keyLen) (CHR 0x00)),
      getPseudorandomFunctionForPbkdf2 = (\<lambda>alg. alg),
      pbkdf2_Key = (\<lambda>password salt iter keyLen h. replicate (nat keyLen) (CHR 0x00)),
      scrypt_derive =
        (\<lambda>password salt N r p keyLen. Inr (replicate (nat keyLen) (CHR 0x00))),
      ssha_Validate = (\<lambda>password hash. (False, Some ''not matching'')),
      ssha256_Validate = (\<lambda>password hash. (False, Some ''not matching'')),
      ssha512_Validate = (\<lambda>password hash. (False, Some ''not matching''))\<rparr>"

text \<open>The errors of the three decoders.\<close>

definition decode_error :: "error \<Rightarrow> bool" where
  "decode_error e =
     (case e of
        ErrInvalidHash \<Rightarrow> True
      | ErrIncompatibleVersion \<Rightarrow> True
      | ErrScan se \<Rightarrow> True
      | ErrCorruptInput \<Rightarrow> True
      | _ \<Rightarrow> False)"


section \<open>Properties\<close>

subsection \<open>The errors a comparator can return\<close>

lemma quantum2_error: "quantum2 enc x y = Inl e \<Longrightarrow> e = ErrCorruptInput"
  by (simp add: quantum2_def split: if_splits)

lemma quantum3_error: "quantum3 enc x y z = Inl e \<Longrightarrow> e = ErrCorruptInput"
  by (simp add: quantum3_def split: if_splits)

lemma decodeQuanta_error: "decodeQuanta enc s = Inl e \<Longrightarrow> e = ErrCorruptInput"
  by (induction enc s rule: decodeQuanta.induct)
    (auto split: if_splits option.splits sum.splits dest: quantum2_error quantum3_error)

lemma DecodeString_error: "DecodeString enc s = Inl e \<Longrightarrow> e = ErrCorruptInput"
  unfolding DecodeString_def by (rule decodeQuanta_error)

lemma decodeArgon2idHash_error: "decodeArgon2idHash h = Inl e \<Longrightarrow> decode_error e"
  unfolding decodeArgon2idHash_def Let_def
  by (auto simp: decode_error_def split: if_splits sum.splits dest: DecodeString_error)

lemma decodePbkdf2Hash_error: "decodePbkdf2Hash h = Inl e \<Longrightarrow> decode_error e"
  unfolding decodePbkdf2Hash_def Let_def
  by (auto simp: decode_error_def split: if_splits sum.splits dest: DecodeString_error)

lemma decodeScryptHash_error: "decodeScryptHash h = Inl e \<Longrightarrow> decode_error e"
  unfolding decodeScryptHash_def Let_def
  by (auto simp: decode_error_def split: if_splits sum.splits dest: DecodeString_error)

lemma CompareBcrypt_known: "CompareBcrypt L p h \<noteq> Some ErrUnknownHashAlgorithm"
  by (simp add: CompareBcrypt_def validateBcryptPasswordLength_def split: option.splits)

lemma CompareArgon2id_known: "CompareArgon2id L p h \<noteq> Some ErrUnknownHashAlgorithm"
  unfolding CompareArgon2id_def Let_def
  by (auto simp: decode_error_def split: sum.splits dest!: decodeArgon2idHash_error)

lemma CompareArgon2i_known: "CompareArgon2i L p h \<noteq> Some ErrUnknownHashAlgorithm"
  unfolding CompareArgon2i_def Let_def
  by (auto simp: decode_error_def split: sum.splits dest!: decodeArgon2idHash_error)

lemma ComparePbkdf2_known: "ComparePbkdf2 L p h \<noteq> Some ErrUnknownHashAlgorithm"
  unfolding ComparePbkdf2_def Let_def
  by (auto simp: decode_error_def split: sum.splits dest!: decodePbkdf2Hash_error)

lemma CompareScrypt_known: "CompareScrypt L p h \<noteq> Some ErrUnknownHashAlgorithm"
  unfolding CompareScrypt_def Let_def
  by (auto simp: decode_error_def split: sum.splits dest!: decodeScryptHash_error)

lemma CompareSSHA_known: "CompareSSHA L p h \<noteq> Some ErrUnknownHashAlgorithm"
  by (simp add: CompareSSHA_def split: option.splits)

lemma CompareSSHA256_known: "CompareSSHA256 L p h \<noteq> Some ErrUnknownHashAlgorithm"
  by (simp add: CompareSSHA256_def split: option.splits)

lemma CompareSSHA512_known: "CompareSSHA512 L p h \<noteq> Some ErrUnknownHashAlgorithm"
  by (simp add: CompareSSHA512_def split: option.splits)

lemmas Compare_known =
  CompareBcrypt_known CompareArgon2id_known CompareArgon2i_known ComparePbkdf2_known
  CompareScrypt_known CompareSSHA_known CompareSSHA256_known CompareSSHA512_known

lemma Compare_unknown_iff:
  "Compare L password hash = Some ErrUnknownHashAlgorithm \<longleftrightarrow>
     \<not> (IsBcryptHash hash \<or> IsArgon2idHash hash \<or> IsArgon2iHash hash \<or> IsPbkdf2Hash hash \<or>
        IsScryptHash hash \<or> IsSSHAHash hash \<or> IsSSHA256Hash hash \<or> IsSSHA512Hash hash)"
  by (simp add: Compare_def Compare_known)

subsection \<open>The dispatcher\<close>

text \<open>
  Claim C1. For every password and encoded hash, \<open>Compare\<close> tests the predicates in the
  order bcrypt, argon2id, argon2i, pbkdf2, scrypt, SSHA, SSHA256, SSHA512 and returns what
  the comparator of the first scheme that matches returns: it is the search of the table
  \<open>scheme_table\<close>, which lists the schemes in that order. It returns
  \<open>ErrUnknownHashAlgorithm\<close> exactly when none of the eight predicates holds.
\<close>

theorem Compare_dispatch:
  "Compare L password hash = compareAny L password hash \<and>
   (Compare L password hash = Some ErrUnknownHashAlgorithm \<longleftrightarrow>
      \<not> (IsBcryptHash hash \<or> IsArgon2idHash hash \<or> IsArgon2iHash hash \<or>
         IsPbkdf2Hash hash \<or> IsScryptHash hash \<or> IsSSHAHash hash \<or>
         IsSSHA256Hash hash \<or> IsSSHA512Hash hash))"
proof
  show "Compare L password hash = compareAny L password hash"
    by (simp add: Compare_def compareAny_def scheme_table_def)
next
  show "Compare L password hash = Some ErrUnknownHashAlgorithm \<longleftrightarrow>
      \<not> (IsBcryptHash hash \<or> IsArgon2idHash hash \<or> IsArgon2iHash hash \<or>
         IsPbkdf2Hash hash \<or> IsScryptHash hash \<or> IsSSHAHash hash \<or>
         IsSSHA256Hash hash \<or> IsSSHA512Hash hash)"
    by (rule Compare_unknown_iff)
qed

text \<open>
  Claim C8. \<open>IsValidHashFormat\<close> holds of a hash exactly when one of the eight
  predicates does, and fails exactly when \<open>Compare\<close> returns
  \<open>ErrUnknownHashAlgorithm\<close> for every password.
\<close>

theorem IsValidHashFormat_iff:
  "(IsValidHashFormat h \<longleftrightarrow>
      IsBcryptHash h \<or> IsArgon2idHash h \<or> IsArgon2iHash h \<or> IsPbkdf2Hash h \<or>
      IsScryptHash h \<or> IsSSHAHash h \<or> IsSSHA256Hash h \<or> IsSSHA512Hash h) \<and>
   (\<not> IsValidHashFormat h \<longleftrightarrow> (\<forall>p. Compare L p h = Some ErrUnknownHashAlgorithm))"
  unfolding Compare_unknown_iff by (auto simp: IsValidHashFormat_def)

subsection \<open>Scanning and splitting\<close>

lemma doScanf_length:
  "doScanf f s a = Inr vs \<Longrightarrow> length vs = length (filter (\<lambda>c. c = CHR ''%'') f)"
proof (induction f s a arbitrary: vs rule: doScanf.induct)
  case (1 s a)
  then show ?case by simp
next
  case (2 f fs s a)
  show ?case
  proof (cases "f = CHR ''%''")
    case True
    with "2.prems" obtain fs' s1 arg a' v s2 vs' where
      fs: "fs = CHR ''d'' # fs'" and sk: "SkipSpace s = Inr s1" and a: "a = arg # a'"
      and sn: "scanNumber arg s1 = Inr (v, s2)" and rec: "doScanf fs' s2 a' = Inr vs'"
      and vs: "vs = v # vs'"
      by (auto split: list.splits if_splits sum.splits)
    have "length vs' = length (filter (\<lambda>c. c = CHR ''%'') fs')"
      using "2.IH"(1) [of "CHR ''d''" fs' s1 arg a' "(v, s2)" v s2 vs'] True fs sk a sn rec
      by simp
    then show ?thesis using True fs vs by simp
  next
    case False
    with "2.prems" obtain c cs where s: "s = c # cs" and c: "c = f" and rec: "doScanf fs cs a = Inr vs"
      by (auto split: list.splits if_splits)
    from "2.IH"(2) [OF False s c rec] show ?thesis using False by simp
  qed
qed

lemma Split_not_Nil: "Split s sep \<noteq> []"
  by (induction s) (auto split: list.splits)

lemma Split_append_sep: "sep \<notin> set a \<Longrightarrow> Split (a @ sep # b) sep = a # Split b sep"
  by (induction a) (auto split: list.splits simp: Split_not_Nil)

lemma Sscanf_one:
  assumes "Sscanf s ''v=%d'' a = Inr vs"
  shows "vs = [vs ! 0]"
proof -
  have "length vs = 1"
    using doScanf_length [of "''v=%d''" s a vs] assms by (simp add: Sscanf_def)
  then show ?thesis by (cases vs) auto
qed


subsection \<open>The bcrypt predicate\<close>

text \<open>
  Claim C9 has \<open>IsBcryptHash\<close> hold exactly of the hashes that begin with \<open>$2a$\<close>,
  \<open>$2b$\<close>, \<open>$2y$\<close> or \<open>$2z$\<close>, and of none that begins with \<open>$2$\<close>. The letter
  of the pattern \<^verbatim>\<open>^\$2[abzy]?\$\<close> is optional, so a hash that begins with \<open>$2$\<close> is
  classified as bcrypt too.
\<close>

theorem IsBcryptHash_counterexample:
  "IsBcryptHash ''$2$04$N'' \<and>
   \<not> (prefix ''$2a$'' ''$2$04$N'' \<or> prefix ''$2b$'' ''$2$04$N'' \<or>
      prefix ''$2y$'' ''$2$04$N'' \<or> prefix ''$2z$'' ''$2$04$N'')"
  by (simp add: IsBcryptHash_def Match_def isBcryptHash_def match_here.simps)


text \<open>
  Claim C9, amended. \<open>IsBcryptHash\<close> holds of a hash exactly when it begins with one of
  the five prefixes \<open>$2$\<close>, \<open>$2a$\<close>, \<open>$2b$\<close>, \<open>$2y$\<close>, \<open>$2z$\<close>.
\<close>

theorem IsBcryptHash_prefix:
  "IsBcryptHash h \<longleftrightarrow>
     prefix ''$2$'' h \<or> prefix ''$2a$'' h \<or> prefix ''$2b$'' h \<or> prefix ''$2y$'' h \<or>
     prefix ''$2z$'' h"
proof -
  note defs = IsBcryptHash_def Match_def isBcryptHash_def match_here.simps(1-4)
  consider "h = []" | a where "h = [a]" | a b where "h = [a, b]"
    | a b c where "h = [a, b, c]" | a b c d r where "h = a # b # c # d # r"
    by (metis list.exhaust)
  then show ?thesis
  proof cases
    case 1 then show ?thesis by (simp add: defs)
  next
    case 2 then show ?thesis by (simp add: defs)
  next
    case 3 then show ?thesis by (simp add: defs)
  next
    case 4 then show ?thesis by (simp add: defs) 
  next
    case 5 then show ?thesis by (simp add: defs) blast
  qed
qed

subsection \<open>The bcrypt comparator\<close>

text \<open>
  Claim C3. For a password of more than 72 bytes \<open>CompareBcrypt\<close> returns the
  password-too-long error whatever the hash, and the comparison of the bcrypt library is
  not reached: the result is the same whatever that comparison would answer.
\<close>

theorem CompareBcrypt_too_long:
  "72 < length password \<Longrightarrow>
     CompareBcrypt L password hash = Some ErrPasswordTooLong \<and>
     CompareBcrypt (L\<lparr>bcrypt_CompareHashAndPassword := f\<rparr>) password hash =
       Some ErrPasswordTooLong"
  by (simp add: CompareBcrypt_def validateBcryptPasswordLength_def)

theorem CompareBcrypt_too_long_witness:
  "72 < length (replicate 73 CHR ''a'') \<and>
   CompareBcrypt fake (replicate 73 CHR ''a'') ''hash'' = Some ErrPasswordTooLong \<and>
   CompareBcrypt (fake\<lparr>bcrypt_CompareHashAndPassword := (\<lambda>h p. None)\<rparr>)
     (replicate 73 CHR ''a'') ''hash'' = Some ErrPasswordTooLong"
  using CompareBcrypt_too_long [of "replicate 73 CHR ''a''" fake "''hash''" "\<lambda>h p. None"]
  by simp

subsection \<open>The errors of the Argon2 decoder\<close>

lemma ConstantTimeCompare_eq: "ConstantTimeCompare x y = 1 \<longleftrightarrow> x = y"
  by (auto simp: ConstantTimeCompare_def)

lemma decodeArgon2idHash_InvalidHash:
  "decodeArgon2idHash h = Inl ErrInvalidHash \<longleftrightarrow> length (Split h CHR ''$'') \<noteq> 6"
  unfolding decodeArgon2idHash_def Let_def
  by (auto split: sum.splits dest: DecodeString_error)

lemma decodeArgon2idHash_IncompatibleVersion:
  "decodeArgon2idHash h = Inl ErrIncompatibleVersion \<longleftrightarrow>
     length (Split h CHR ''$'') = 6 \<and>
     (\<exists>v. Sscanf (Split h CHR ''$'' ! 2) ''v=%d'' [Signed 64] = Inr [v] \<and> v \<noteq> argon2_Version)"
proof (cases "Sscanf (Split h CHR ''$'' ! 2) ''v=%d'' [Signed 64]")
  case (Inl e)
  then show ?thesis
    unfolding decodeArgon2idHash_def Let_def by simp
next
  case (Inr vs)
  then have vs: "vs = [vs ! 0]" by (rule Sscanf_one)
  show ?thesis
    unfolding decodeArgon2idHash_def Let_def using Inr vs
    by (auto split: sum.splits dest: DecodeString_error)
qed

lemma decodeArgon2idHash_not_mismatch:
  "decodeArgon2idHash h \<noteq> Inl ErrMismatchedHashAndPassword"
  using decodeArgon2idHash_error [of h ErrMismatchedHashAndPassword]
  by (auto simp: decode_error_def)

lemma CompareArgon2id_decode_error:
  "decode_error e \<Longrightarrow>
     CompareArgon2id L p h = Some e \<longleftrightarrow> decodeArgon2idHash h = Inl e"
  unfolding CompareArgon2id_def Let_def
  by (auto simp: decode_error_def split: sum.splits)

text \<open>
  Claim C4. The Argon2 decoder returns \<open>ErrInvalidHash\<close> exactly when the split on \<open>$\<close>
  does not give 6 fields, and \<open>ErrIncompatibleVersion\<close> exactly when there are 6 fields
  and the third scans as \<open>v=\<close> and a number other than \<open>argon2.Version\<close>, whatever the
  other fields hold. The two errors are different values, neither is the mismatch error,
  and the decoder never returns the mismatch error.
\<close>

theorem decodeArgon2idHash_rejects:
  "(decodeArgon2idHash h = Inl ErrInvalidHash \<longleftrightarrow> length (Split h CHR ''$'') \<noteq> 6) \<and>
   (decodeArgon2idHash h = Inl ErrIncompatibleVersion \<longleftrightarrow>
      length (Split h CHR ''$'') = 6 \<and>
      (\<exists>v. Sscanf (Split h CHR ''$'' ! 2) ''v=%d'' [Signed 64] = Inr [v] \<and>
           v \<noteq> argon2_Version)) \<and>
   decodeArgon2idHash h \<noteq> Inl ErrMismatchedHashAndPassword \<and>
   (CompareArgon2id L p h = Some ErrInvalidHash \<longleftrightarrow> length (Split h CHR ''$'') \<noteq> 6) \<and>
   (CompareArgon2id L p h = Some ErrIncompatibleVersion \<longleftrightarrow>
      decodeArgon2idHash h = Inl ErrIncompatibleVersion)"
  using decodeArgon2idHash_InvalidHash [of h] decodeArgon2idHash_IncompatibleVersion [of h]
    decodeArgon2idHash_not_mismatch [of h]
    CompareArgon2id_decode_error [of ErrInvalidHash L p h]
    CompareArgon2id_decode_error [of ErrIncompatibleVersion L p h]
  by (simp add: decode_error_def)

lemma decodeArgon2idHash_example_version:
  "decodeArgon2idHash ''$argon2id$v=16$m=32,t=2,p=4$cm94YnRVOW5jZzFzcVE4bQ$MNzk5BtR2vUhrp6qQEjRNw'' =
     Inl ErrIncompatibleVersion"
  by code_simp

lemma decodeArgon2idHash_example_fields:
  "decodeArgon2idHash ''$argon2id$v=19$m=32,t=2,p=4$cm94YnRVOW5jZzFzcVE4bQ'' = Inl ErrInvalidHash"
  by code_simp

subsection \<open>Field counts\<close>

lemma CompareSSHA_outcomes:
  "CompareSSHA L p h = None \<or> CompareSSHA L p h = Some ErrMismatchedHashAndPassword"
  by (simp add: CompareSSHA_def split: option.splits)

lemma CompareSSHA256_outcomes:
  "CompareSSHA256 L p h = None \<or> CompareSSHA256 L p h = Some ErrMismatchedHashAndPassword"
  by (simp add: CompareSSHA256_def split: option.splits)

lemma CompareSSHA512_outcomes:
  "CompareSSHA512 L p h = None \<or> CompareSSHA512 L p h = Some ErrMismatchedHashAndPassword"
  by (simp add: CompareSSHA512_def split: option.splits)

text \<open>
  Claim C2 has every scheme report a malformed encoding with an error of its own, never
  with the mismatch error, the SSHA comparators included. The SSHA comparators return
  \<open>ErrMismatchedHashAndPassword\<close> for every error of the validator: here for a hash
  that is the scheme tag alone, which the validator rejects.
\<close>

theorem CompareSSHA_counterexample:
  "CompareSSHA fake ''test123'' ''{SSHA}'' = Some ErrMismatchedHashAndPassword"
  by (simp add: CompareSSHA_def fake_def)

text \<open>
  Claim C2, amended. For the four schemes the file decodes itself, a field count other
  than the required one (6 for argon2id and argon2i, 5 for pbkdf2 and scrypt) is rejected
  with \<open>ErrInvalidHash\<close>, never with the mismatch error. \<open>CompareBcrypt\<close> splits
  nothing: after the length check it returns what the bcrypt library answers. The three
  SSHA comparators return either success or \<open>ErrMismatchedHashAndPassword\<close>, so every
  failure of the validator, a failure of format included, is reported as a mismatch.
\<close>

theorem field_count_errors:
  "(length (Split h CHR ''$'') \<noteq> 6 \<longrightarrow>
      CompareArgon2id L p h = Some ErrInvalidHash \<and>
      CompareArgon2i L p h = Some ErrInvalidHash) \<and>
   (length (Split h CHR ''$'') \<noteq> 5 \<longrightarrow>
      ComparePbkdf2 L p h = Some ErrInvalidHash \<and>
      CompareScrypt L p h = Some ErrInvalidHash) \<and>
   CompareBcrypt L p h =
     (if 72 < length p then Some ErrPasswordTooLong
      else map_option ErrBcrypt (bcrypt_CompareHashAndPassword L h p)) \<and>
   (CompareSSHA L p h = None \<or> CompareSSHA L p h = Some ErrMismatchedHashAndPassword) \<and>
   (CompareSSHA256 L p h = None \<or> CompareSSHA256 L p h = Some ErrMismatchedHashAndPassword) \<and>
   (CompareSSHA512 L p h = None \<or> CompareSSHA512 L p h = Some ErrMismatchedHashAndPassword)"
proof (intro conjI impI)
  assume "length (Split h CHR ''$'') \<noteq> 6"
  then show "CompareArgon2id L p h = Some ErrInvalidHash"
    and "CompareArgon2i L p h = Some ErrInvalidHash"
    by (simp_all add: CompareArgon2id_def CompareArgon2i_def decodeArgon2idHash_def)
next
  assume "length (Split h CHR ''$'') \<noteq> 5"
  then show "ComparePbkdf2 L p h = Some ErrInvalidHash"
    and "CompareScrypt L p h = Some ErrInvalidHash"
    by (simp_all add: ComparePbkdf2_def CompareScrypt_def decodePbkdf2Hash_def
        decodeScryptHash_def)
next
  show "CompareBcrypt L p h =
     (if 72 < length p then Some ErrPasswordTooLong
      else map_option ErrBcrypt (bcrypt_CompareHashAndPassword L h p))"
    by (simp add: CompareBcrypt_def validateBcryptPasswordLength_def split: option.splits)
qed (rule CompareSSHA_outcomes CompareSSHA256_outcomes CompareSSHA512_outcomes)+

theorem field_count_errors_witness:
  "length (Split ''$scrypt$2npRo7P03Mt8keSoMbyD$MiCzNcIplSMqSBrm4Hck'' CHR ''$'') = 4 \<and>
   CompareArgon2id fake ''test'' ''$scrypt$2npRo7P03Mt8keSoMbyD$MiCzNcIplSMqSBrm4Hck'' =
     Some ErrInvalidHash \<and>
   CompareArgon2i fake ''test'' ''$scrypt$2npRo7P03Mt8keSoMbyD$MiCzNcIplSMqSBrm4Hck'' =
     Some ErrInvalidHash \<and>
   ComparePbkdf2 fake ''test'' ''$scrypt$2npRo7P03Mt8keSoMbyD$MiCzNcIplSMqSBrm4Hck'' =
     Some ErrInvalidHash \<and>
   CompareScrypt fake ''test'' ''$scrypt$2npRo7P03Mt8keSoMbyD$MiCzNcIplSMqSBrm4Hck'' =
     Some ErrInvalidHash"
proof -
  have n: "length (Split ''$scrypt$2npRo7P03Mt8keSoMbyD$MiCzNcIplSMqSBrm4Hck'' CHR ''$'') = 4"
    by code_simp
  show ?thesis
    using n field_count_errors
      [of "''$scrypt$2npRo7P03Mt8keSoMbyD$MiCzNcIplSMqSBrm4Hck''" fake "''test''"]
    by simp
qed

subsection \<open>Decoded lengths\<close>

lemma decodePbkdf2Hash_params:
  assumes "decodePbkdf2Hash h = Inr (p, salt, hash)"
  shows "\<exists>vs. Sscanf (Split h CHR ''$'' ! 2) ''i=%d,l=%d'' [Unsigned 32, Unsigned 32] = Inr vs \<and>
     p = \<lparr>Algorithm = SplitN2 (Split h CHR ''$'' ! 1) CHR ''-'' ! 1,
          Iterations = word_of_int (vs ! 0),
          SaltLength = word_of_nat (length salt),
          KeyLength = word_of_nat (length hash)\<rparr>"
  using assms unfolding decodePbkdf2Hash_def Let_def
  by (auto split: if_splits sum.splits)

lemma unat_u32: "unat (word_of_nat n :: 32 word) = n mod 2 ^ 32"
  by (simp add: unat_of_nat)

lemma uint_u32: "uint (word_of_nat n :: 32 word) = int (n mod 2 ^ 32)"
  by (simp add: uint_nat unat_of_nat)

text \<open>
  Claim C7. Whenever one of the three decoders succeeds, \<open>SaltLength\<close> and \<open>KeyLength\<close>
  of the record it returns are the lengths of the decoded salt and of the decoded digest,
  converted to \<open>uint32\<close> as the code converts them (so equal to the lengths below
  \<open>2 ^ 32\<close>). For PBKDF2 the record is made of the digest name, the scanned iteration count
  and these two lengths only: the scanned \<open>l=\<close> value is overwritten, and the output length
  handed to \<open>pbkdf2.Key\<close> is the length of the decoded digest.
\<close>

theorem decoded_lengths:
  "(decodeArgon2idHash ha = Inr (pa, salta, hasha) \<longrightarrow>
      Argon2.SaltLength pa = word_of_nat (length salta) \<and>
      Argon2.KeyLength pa = word_of_nat (length hasha) \<and>
      unat (Argon2.SaltLength pa) = length salta mod 2 ^ 32 \<and>
      unat (Argon2.KeyLength pa) = length hasha mod 2 ^ 32) \<and>
   (decodePbkdf2Hash hp = Inr (pp, saltp, hashp) \<longrightarrow>
      Pbkdf2.SaltLength pp = word_of_nat (length saltp) \<and>
      Pbkdf2.KeyLength pp = word_of_nat (length hashp) \<and>
      unat (Pbkdf2.SaltLength pp) = length saltp mod 2 ^ 32 \<and>
      unat (Pbkdf2.KeyLength pp) = length hashp mod 2 ^ 32 \<and>
      (\<exists>vs. Sscanf (Split hp CHR ''$'' ! 2) ''i=%d,l=%d'' [Unsigned 32, Unsigned 32] = Inr vs \<and>
            pp = \<lparr>Algorithm = SplitN2 (Split hp CHR ''$'' ! 1) CHR ''-'' ! 1,
                  Iterations = word_of_int (vs ! 0),
                  SaltLength = word_of_nat (length saltp),
                  KeyLength = word_of_nat (length hashp)\<rparr>) \<and>
      ComparePbkdf2 L password hp =
        (if hashp = pbkdf2_Key L password saltp (uint (Pbkdf2.Iterations pp))
                      (int (length hashp mod 2 ^ 32))
                      (getPseudorandomFunctionForPbkdf2 L (Algorithm pp))
         then None else Some ErrMismatchedHashAndPassword)) \<and>
   (decodeScryptHash hs = Inr (ps, salts, hashs) \<longrightarrow>
      Scrypt.SaltLength ps = word_of_nat (length salts) \<and>
      Scrypt.KeyLength ps = word_of_nat (length hashs) \<and>
      unat (Scrypt.SaltLength ps) = length salts mod 2 ^ 32 \<and>
      unat (Scrypt.KeyLength ps) = length hashs mod 2 ^ 32)"
proof (intro conjI impI)
  assume "decodeArgon2idHash ha = Inr (pa, salta, hasha)"
  then show s: "Argon2.SaltLength pa = word_of_nat (length salta)"
    and k: "Argon2.KeyLength pa = word_of_nat (length hasha)"
    unfolding decodeArgon2idHash_def Let_def
    by (auto split: if_splits sum.splits)
  show "unat (Argon2.SaltLength pa) = length salta mod 2 ^ 32"
    and "unat (Argon2.KeyLength pa) = length hasha mod 2 ^ 32"
    unfolding s k by (rule unat_u32)+
next
  assume d: "decodePbkdf2Hash hp = Inr (pp, saltp, hashp)"
  from decodePbkdf2Hash_params [OF d]
  show e: "\<exists>vs. Sscanf (Split hp CHR ''$'' ! 2) ''i=%d,l=%d'' [Unsigned 32, Unsigned 32] = Inr vs \<and>
            pp = \<lparr>Algorithm = SplitN2 (Split hp CHR ''$'' ! 1) CHR ''-'' ! 1,
                  Iterations = word_of_int (vs ! 0),
                  SaltLength = word_of_nat (length saltp),
                  KeyLength = word_of_nat (length hashp)\<rparr>" .
  from e show s: "Pbkdf2.SaltLength pp = word_of_nat (length saltp)"
    and k: "Pbkdf2.KeyLength pp = word_of_nat (length hashp)"
    by auto
  show "unat (Pbkdf2.SaltLength pp) = length saltp mod 2 ^ 32"
    and "unat (Pbkdf2.KeyLength pp) = length hashp mod 2 ^ 32"
    unfolding s k by (rule unat_u32)+
  show "ComparePbkdf2 L password hp =
        (if hashp = pbkdf2_Key L password saltp (uint (Pbkdf2.Iterations pp))
                      (int (length hashp mod 2 ^ 32))
                      (getPseudorandomFunctionForPbkdf2 L (Algorithm pp))
         then None else Some ErrMismatchedHashAndPassword)"
    using d k by (simp add: ComparePbkdf2_def ConstantTimeCompare_eq uint_u32)
next
  assume "decodeScryptHash hs = Inr (ps, salts, hashs)"
  then show s: "Scrypt.SaltLength ps = word_of_nat (length salts)"
    and k: "Scrypt.KeyLength ps = word_of_nat (length hashs)"
    unfolding decodeScryptHash_def Let_def
    by (auto split: if_splits sum.splits)
  show "unat (Scrypt.SaltLength ps) = length salts mod 2 ^ 32"
    and "unat (Scrypt.KeyLength ps) = length hashs mod 2 ^ 32"
    unfolding s k by (rule unat_u32)+
qed

lemma decodeArgon2idHash_example:
  "decodeArgon2idHash ''$argon2id$v=19$m=32,t=2,p=4$cm94YnRVOW5jZzFzcVE4bQ$MNzk5BtR2vUhrp6qQEjRNw'' =
     Inr (\<lparr>Memory = 32, Iterations = 2, Parallelism = 4, SaltLength = 16, KeyLength = 16\<rparr>,
          ''roxbtU9ncg1sqQ8m'',
          [CHR ''0'', CHR 0xDC, CHR 0xE4, CHR 0xE4, CHR 0x1B, CHR ''Q'', CHR 0xDA, CHR 0xF5,
           CHR ''!'', CHR 0xAE, CHR 0x9E, CHR 0xAA, CHR ''@'', CHR ''H'', CHR 0xD1, CHR ''7''])"
  by code_simp

lemma decodePbkdf2Hash_example:
  "decodePbkdf2Hash ''$pbkdf2-sha999$i=1,l=77$AA$AAAA'' =
     Inr (\<lparr>Algorithm = ''sha999'', Iterations = 1, SaltLength = 1, KeyLength = 3\<rparr>,
          [CHR 0x00], [CHR 0x00, CHR 0x00, CHR 0x00])"
  by code_simp

lemma decodeScryptHash_example:
  "decodeScryptHash ''$scrypt$ln=2,r=1,p=1$AA==$AAAA'' =
     Inr (\<lparr>Cost = 2, Block = 1, Parrellization = 1, SaltLength = 1, KeyLength = 3\<rparr>,
          [CHR 0x00], [CHR 0x00, CHR 0x00, CHR 0x00])"
  by code_simp

theorem decoded_lengths_witness:
  "decodeArgon2idHash ''$argon2id$v=19$m=32,t=2,p=4$cm94YnRVOW5jZzFzcVE4bQ$MNzk5BtR2vUhrp6qQEjRNw'' =
     Inr (\<lparr>Memory = 32, Iterations = 2, Parallelism = 4, SaltLength = 16, KeyLength = 16\<rparr>,
          ''roxbtU9ncg1sqQ8m'',
          [CHR ''0'', CHR 0xDC, CHR 0xE4, CHR 0xE4, CHR 0x1B, CHR ''Q'', CHR 0xDA, CHR 0xF5,
           CHR ''!'', CHR 0xAE, CHR 0x9E, CHR 0xAA, CHR ''@'', CHR ''H'', CHR 0xD1, CHR ''7'']) \<and>
   decodePbkdf2Hash ''$pbkdf2-sha999$i=1,l=77$AA$AAAA'' =
     Inr (\<lparr>Algorithm = ''sha999'', Iterations = 1, SaltLength = 1, KeyLength = 3\<rparr>,
          [CHR 0x00], [CHR 0x00, CHR 0x00, CHR 0x00]) \<and>
   decodeScryptHash ''$scrypt$ln=2,r=1,p=1$AA==$AAAA'' =
     Inr (\<lparr>Cost = 2, Block = 1, Parrellization = 1, SaltLength = 1, KeyLength = 3\<rparr>,
          [CHR 0x00], [CHR 0x00, CHR 0x00, CHR 0x00])"
  using decoded_lengths
    [of "''$argon2id$v=19$m=32,t=2,p=4$cm94YnRVOW5jZzFzcVE4bQ$MNzk5BtR2vUhrp6qQEjRNw''"
      "\<lparr>Memory = 32, Iterations = 2, Parallelism = 4, SaltLength = 16, KeyLength = 16\<rparr>"
      "''roxbtU9ncg1sqQ8m''"
      "[CHR ''0'', CHR 0xDC, CHR 0xE4, CHR 0xE4, CHR 0x1B, CHR ''Q'', CHR 0xDA, CHR 0xF5,
        CHR ''!'', CHR 0xAE, CHR 0x9E, CHR 0xAA, CHR ''@'', CHR ''H'', CHR 0xD1, CHR ''7'']"
      "''$pbkdf2-sha999$i=1,l=77$AA$AAAA''"
      "\<lparr>Algorithm = ''sha999'', Iterations = 1, SaltLength = 1, KeyLength = 3\<rparr>"
      "[CHR 0x00]" "[CHR 0x00, CHR 0x00, CHR 0x00]" fake "''test''"
      "''$scrypt$ln=2,r=1,p=1$AA==$AAAA''"
      "\<lparr>Cost = 2, Block = 1, Parrellization = 1, SaltLength = 1, KeyLength = 3\<rparr>"
      "[CHR 0x00]" "[CHR 0x00, CHR 0x00, CHR 0x00]"]
    decodeArgon2idHash_example decodePbkdf2Hash_example decodeScryptHash_example
  by simp

subsection \<open>PBKDF2 digest names\<close>

text \<open>
  Claim C5 has \<open>ComparePbkdf2\<close> fail with an unsupported-digest error when the digest name
  is not one of \<open>sha1\<close>, \<open>sha224\<close>, \<open>sha256\<close>, \<open>sha384\<close>, \<open>sha512\<close>. The decoder keeps
  any name, and the comparator hands the function \<open>getPseudorandomFunctionForPbkdf2\<close>
  returns for it to \<open>pbkdf2.Key\<close> and compares: for the name \<open>sha999\<close> the result is
  success or a mismatch.
\<close>

theorem ComparePbkdf2_counterexample:
  "decodePbkdf2Hash ''$pbkdf2-sha999$i=1,l=77$AA$AAAA'' =
     Inr (\<lparr>Algorithm = ''sha999'', Iterations = 1, SaltLength = 1, KeyLength = 3\<rparr>,
          [CHR 0x00], [CHR 0x00, CHR 0x00, CHR 0x00]) \<and>
   IsPbkdf2Hash ''$pbkdf2-sha999$i=1,l=77$AA$AAAA'' \<and>
   Compare fake ''test'' ''$pbkdf2-sha999$i=1,l=77$AA$AAAA'' \<in>
     {None, Some ErrMismatchedHashAndPassword} \<and>
   ComparePbkdf2 fake ''test'' ''$pbkdf2-sha999$i=1,l=77$AA$AAAA'' \<in>
     {None, Some ErrMismatchedHashAndPassword}"
  by code_simp

text \<open>
  Claim C5, amended. For every password and every hash the PBKDF2 decoder accepts, whatever
  the digest name, \<open>ComparePbkdf2\<close> derives a key with the function that
  \<open>getPseudorandomFunctionForPbkdf2\<close> returns for the name and returns success or
  \<open>ErrMismatchedHashAndPassword\<close>; it has no unsupported-digest error.
\<close>

theorem ComparePbkdf2_any_digest:
  assumes "decodePbkdf2Hash h = Inr (p, salt, hash)"
  shows "ComparePbkdf2 L password h =
           (if hash = pbkdf2_Key L password salt (uint (Pbkdf2.Iterations p))
                        (uint (Pbkdf2.KeyLength p))
                        (getPseudorandomFunctionForPbkdf2 L (Algorithm p))
            then None else Some ErrMismatchedHashAndPassword) \<and>
         (ComparePbkdf2 L password h = None \<or>
          ComparePbkdf2 L password h = Some ErrMismatchedHashAndPassword)"
  using assms by (simp add: ComparePbkdf2_def ConstantTimeCompare_eq)

theorem ComparePbkdf2_any_digest_witness:
  "decodePbkdf2Hash ''$pbkdf2-sha999$i=1,l=77$AA$AAAA'' =
     Inr (\<lparr>Algorithm = ''sha999'', Iterations = 1, SaltLength = 1, KeyLength = 3\<rparr>,
          [CHR 0x00], [CHR 0x00, CHR 0x00, CHR 0x00]) \<and>
   ComparePbkdf2 fake ''test'' ''$pbkdf2-sha999$i=1,l=77$AA$AAAA'' =
     (if [CHR 0x00, CHR 0x00, CHR 0x00] =
           pbkdf2_Key fake ''test'' [CHR 0x00] 1 3
             (getPseudorandomFunctionForPbkdf2 fake ''sha999'')
      then None else Some ErrMismatchedHashAndPassword)"
  using ComparePbkdf2_any_digest [OF decodePbkdf2Hash_example, of fake "''test''"]
    decodePbkdf2Hash_example
  by simp

subsection \<open>The scrypt cost\<close>

text \<open>
  Claim C6 has \<open>CompareScrypt\<close> return the mismatch error for the password \<open>test\<close> and
  the encoding with \<open>ln=16385\<close>. The decoding succeeds, but 16385 is not a power of two:
  \<open>scrypt.Key\<close> rejects the cost before it derives anything, and the comparator
  returns that error.
\<close>

theorem CompareScrypt_counterexample:
  "CompareScrypt fake ''test''
     ''$scrypt$ln=16385,r=8,p=1$2npRo7P03Mt8keSoMbyD/tKFWyUzjiQf2svUaNDSrhA=$MiCzNcIplSMqSBrm4HckjYqYhaVPPjTARTzwB1cVNYE='' \<noteq>
   Some ErrMismatchedHashAndPassword"
  by code_simp

text \<open>
  Claim C6, amended. For the password \<open>test\<close> and the encoding with \<open>ln=16385\<close>, decoding
  succeeds, with cost 16385, block size 8, parallelization 1 and a salt and a digest of
  32 bytes, and \<open>CompareScrypt\<close> returns the error of \<open>scrypt.Key\<close> for a cost that is
  not a power of two, not the mismatch error.
\<close>

theorem CompareScrypt_cost_16385:
  "(case decodeScryptHash
      ''$scrypt$ln=16385,r=8,p=1$2npRo7P03Mt8keSoMbyD/tKFWyUzjiQf2svUaNDSrhA=$MiCzNcIplSMqSBrm4HckjYqYhaVPPjTARTzwB1cVNYE='' of
      Inl err \<Rightarrow> False
    | Inr (p, salt, hash) \<Rightarrow>
        p = \<lparr>Cost = 16385, Block = 8, Parrellization = 1, SaltLength = 32, KeyLength = 32\<rparr> \<and>
        length salt = 32 \<and> length hash = 32) \<and>
   CompareScrypt L ''test''
     ''$scrypt$ln=16385,r=8,p=1$2npRo7P03Mt8keSoMbyD/tKFWyUzjiQf2svUaNDSrhA=$MiCzNcIplSMqSBrm4HckjYqYhaVPPjTARTzwB1cVNYE='' =
   Some (ErrScrypt ''scrypt: N must be > 1 and a power of 2'')"
  by code_simp

subsection \<open>The scheme field of an Argon2 encoding\<close>

lemma Split_two_fields:
  assumes "CHR ''$'' \<notin> set a" and "CHR ''$'' \<notin> set f"
  shows "Split (a @ ''$'' @ f @ ''$'' @ rest) CHR ''$'' = a # f # Split rest CHR ''$''"
  using assms by (simp add: Split_append_sep)

lemma decodeArgon2idHash_fields:
  assumes "CHR ''$'' \<notin> set a" and "CHR ''$'' \<notin> set f"
    and "CHR ''$'' \<notin> set a'" and "CHR ''$'' \<notin> set f'"
  shows "decodeArgon2idHash (a @ ''$'' @ f @ ''$'' @ rest) =
         decodeArgon2idHash (a' @ ''$'' @ f' @ ''$'' @ rest)"
proof -
  have n: "(x # y # ps) ! 2 = ps ! 0" "(x # y # ps) ! 3 = ps ! 1" "(x # y # ps) ! 4 = ps ! 2"
    "(x # y # ps) ! 5 = ps ! 3" for x y :: string and ps
    by simp_all
  show ?thesis
    unfolding decodeArgon2idHash_def Split_two_fields [OF assms(1,2)]
      Split_two_fields [OF assms(3,4)] Let_def n
    by simp
qed

lemma CompareArgon2i_variant:
  "CompareArgon2i L password h =
     CompareArgon2id (L\<lparr>argon2_IDKey := argon2_Key L\<rparr>) password h"
  by (simp add: CompareArgon2i_def CompareArgon2id_def split: sum.splits)

lemma decodeArgon2idHash_accepts:
  assumes "length (Split g CHR ''$'') = 6"
    and "Sscanf (Split g CHR ''$'' ! 2) ''v=%d'' [Signed 64] = Inr [argon2_Version]"
    and "Sscanf (Split g CHR ''$'' ! 3) ''m=%d,t=%d,p=%d''
           [Unsigned 64, Unsigned 32, Unsigned 8] = Inr ms"
    and "DecodeString (Strict RawStdEncoding) (Split g CHR ''$'' ! 4) = Inr salt"
    and "DecodeString (Strict RawStdEncoding) (Split g CHR ''$'' ! 5) = Inr hash"
  shows "decodeArgon2idHash g =
           Inr (\<lparr>Memory = word_of_int (ms ! 0), Iterations = word_of_int (ms ! 1),
                 Parallelism = word_of_int (ms ! 2),
                 SaltLength = word_of_nat (length salt),
                 KeyLength = word_of_nat (length hash)\<rparr>, salt, hash)"
  using assms by (simp add: decodeArgon2idHash_def)

text \<open>
  Claim C10. The Argon2 decoder does not look at the first two fields: two encodings that
  differ only there (in the text before the first \<open>$\<close> and in the scheme name) decode
  alike and compare alike, under both entry points. An encoding of 6 fields whose third
  field scans as the supported version, whose fourth scans as the three parameters and
  whose last two are unpadded base64 is decoded, whatever its scheme name, and compared
  with the key the library derives. \<open>CompareArgon2i\<close> is \<open>CompareArgon2id\<close> with
  \<open>argon2.Key\<close> in the place of \<open>argon2.IDKey\<close>. What the library does with the
  parameters it is handed is outside the model.
\<close>

theorem Argon2_scheme_field_ignored:
  "(CHR ''$'' \<notin> set a \<and> CHR ''$'' \<notin> set f \<and> CHR ''$'' \<notin> set a' \<and> CHR ''$'' \<notin> set f' \<longrightarrow>
      decodeArgon2idHash (a @ ''$'' @ f @ ''$'' @ rest) =
        decodeArgon2idHash (a' @ ''$'' @ f' @ ''$'' @ rest) \<and>
      CompareArgon2id L password (a @ ''$'' @ f @ ''$'' @ rest) =
        CompareArgon2id L password (a' @ ''$'' @ f' @ ''$'' @ rest) \<and>
      CompareArgon2i L password (a @ ''$'' @ f @ ''$'' @ rest) =
        CompareArgon2i L password (a' @ ''$'' @ f' @ ''$'' @ rest)) \<and>
   (length (Split g CHR ''$'') = 6 \<and>
    Sscanf (Split g CHR ''$'' ! 2) ''v=%d'' [Signed 64] = Inr [argon2_Version] \<and>
    Sscanf (Split g CHR ''$'' ! 3) ''m=%d,t=%d,p=%d''
      [Unsigned 64, Unsigned 32, Unsigned 8] = Inr ms \<and>
    DecodeString (Strict RawStdEncoding) (Split g CHR ''$'' ! 4) = Inr salt \<and>
    DecodeString (Strict RawStdEncoding) (Split g CHR ''$'' ! 5) = Inr hash \<longrightarrow>
      decodeArgon2idHash g =
        Inr (\<lparr>Memory = word_of_int (ms ! 0), Iterations = word_of_int (ms ! 1),
              Parallelism = word_of_int (ms ! 2),
              SaltLength = word_of_nat (length salt),
              KeyLength = word_of_nat (length hash)\<rparr>, salt, hash) \<and>
      CompareArgon2id L password g =
        (if hash = argon2_IDKey L password salt (word_of_int (ms ! 1))
                     (ucast (word_of_int (ms ! 0) :: 64 word)) (word_of_int (ms ! 2))
                     (word_of_nat (length hash))
         then None else Some ErrMismatchedHashAndPassword) \<and>
      CompareArgon2i L password g =
        (if hash = argon2_Key L password salt (word_of_int (ms ! 1))
                     (ucast (word_of_int (ms ! 0) :: 64 word)) (word_of_int (ms ! 2))
                     (word_of_nat (length hash))
         then None else Some ErrMismatchedHashAndPassword)) \<and>
   CompareArgon2i L password h =
     CompareArgon2id (L\<lparr>argon2_IDKey := argon2_Key L\<rparr>) password h"
proof (intro conjI impI; (elim conjE)?)
  assume s: "CHR ''$'' \<notin> set a" "CHR ''$'' \<notin> set f" "CHR ''$'' \<notin> set a'" "CHR ''$'' \<notin> set f'"
  show "decodeArgon2idHash (a @ ''$'' @ f @ ''$'' @ rest) =
        decodeArgon2idHash (a' @ ''$'' @ f' @ ''$'' @ rest)"
    by (rule decodeArgon2idHash_fields [OF s])
  then show "CompareArgon2id L password (a @ ''$'' @ f @ ''$'' @ rest) =
        CompareArgon2id L password (a' @ ''$'' @ f' @ ''$'' @ rest)"
    and "CompareArgon2i L password (a @ ''$'' @ f @ ''$'' @ rest) =
        CompareArgon2i L password (a' @ ''$'' @ f' @ ''$'' @ rest)"
    by (simp_all add: CompareArgon2id_def CompareArgon2i_def)
next
  assume "length (Split g CHR ''$'') = 6"
    and "Sscanf (Split g CHR ''$'' ! 2) ''v=%d'' [Signed 64] = Inr [argon2_Version]"
    and "Sscanf (Split g CHR ''$'' ! 3) ''m=%d,t=%d,p=%d''
           [Unsigned 64, Unsigned 32, Unsigned 8] = Inr ms"
    and "DecodeString (Strict RawStdEncoding) (Split g CHR ''$'' ! 4) = Inr salt"
    and "DecodeString (Strict RawStdEncoding) (Split g CHR ''$'' ! 5) = Inr hash"
  then show d: "decodeArgon2idHash g =
        Inr (\<lparr>Memory = word_of_int (ms ! 0), Iterations = word_of_int (ms ! 1),
              Parallelism = word_of_int (ms ! 2),
              SaltLength = word_of_nat (length salt),
              KeyLength = word_of_nat (length hash)\<rparr>, salt, hash)"
    by (rule decodeArgon2idHash_accepts)
  show "CompareArgon2id L password g =
        (if hash = argon2_IDKey L password salt (word_of_int (ms ! 1))
                     (ucast (word_of_int (ms ! 0) :: 64 word)) (word_of_int (ms ! 2))
                     (word_of_nat (length hash))
         then None else Some ErrMismatchedHashAndPassword)"
    by (simp add: CompareArgon2id_def d ConstantTimeCompare_eq)
  show "CompareArgon2i L password g =
        (if hash = argon2_Key L password salt (word_of_int (ms ! 1))
                     (ucast (word_of_int (ms ! 0) :: 64 word)) (word_of_int (ms ! 2))
                     (word_of_nat (length hash))
         then None else Some ErrMismatchedHashAndPassword)"
    by (simp add: CompareArgon2i_def d ConstantTimeCompare_eq)
next
  show "CompareArgon2i L password h =
     CompareArgon2id (L\<lparr>argon2_IDKey := argon2_Key L\<rparr>) password h"
    by (rule CompareArgon2i_variant)
qed

lemma Argon2_other_scheme_fields:
  "length (Split ''$anything$v=19$m=32,t=2,p=4$cm94YnRVOW5jZzFzcVE4bQ$MNzk5BtR2vUhrp6qQEjRNw''
     CHR ''$'') = 6"
  "Sscanf (Split ''$anything$v=19$m=32,t=2,p=4$cm94YnRVOW5jZzFzcVE4bQ$MNzk5BtR2vUhrp6qQEjRNw''
     CHR ''$'' ! 2) ''v=%d'' [Signed 64] = Inr [argon2_Version]"
  "Sscanf (Split ''$anything$v=19$m=32,t=2,p=4$cm94YnRVOW5jZzFzcVE4bQ$MNzk5BtR2vUhrp6qQEjRNw''
     CHR ''$'' ! 3) ''m=%d,t=%d,p=%d'' [Unsigned 64, Unsigned 32, Unsigned 8] = Inr [32, 2, 4]"
  "DecodeString (Strict RawStdEncoding)
     (Split ''$anything$v=19$m=32,t=2,p=4$cm94YnRVOW5jZzFzcVE4bQ$MNzk5BtR2vUhrp6qQEjRNw''
        CHR ''$'' ! 4) = Inr ''roxbtU9ncg1sqQ8m''"
  "DecodeString (Strict RawStdEncoding)
     (Split ''$anything$v=19$m=32,t=2,p=4$cm94YnRVOW5jZzFzcVE4bQ$MNzk5BtR2vUhrp6qQEjRNw''
        CHR ''$'' ! 5) =
     Inr [CHR ''0'', CHR 0xDC, CHR 0xE4, CHR 0xE4, CHR 0x1B, CHR ''Q'', CHR 0xDA, CHR 0xF5,
          CHR ''!'', CHR 0xAE, CHR 0x9E, CHR 0xAA, CHR ''@'', CHR ''H'', CHR 0xD1, CHR ''7'']"
  by code_simp+

theorem Argon2_scheme_field_ignored_witness:
  "CHR ''$'' \<notin> set [] \<and> CHR ''$'' \<notin> set ''argon2id'' \<and> CHR ''$'' \<notin> set ''anything'' \<and>
   decodeArgon2idHash ''$argon2id$v=19$m=32,t=2,p=4$cm94YnRVOW5jZzFzcVE4bQ$MNzk5BtR2vUhrp6qQEjRNw'' =
     decodeArgon2idHash ''$anything$v=19$m=32,t=2,p=4$cm94YnRVOW5jZzFzcVE4bQ$MNzk5BtR2vUhrp6qQEjRNw'' \<and>
   CompareArgon2id fake ''test''
       ''$argon2id$v=19$m=32,t=2,p=4$cm94YnRVOW5jZzFzcVE4bQ$MNzk5BtR2vUhrp6qQEjRNw'' =
     CompareArgon2id fake ''test''
       ''$anything$v=19$m=32,t=2,p=4$cm94YnRVOW5jZzFzcVE4bQ$MNzk5BtR2vUhrp6qQEjRNw'' \<and>
   length (Split ''$anything$v=19$m=32,t=2,p=4$cm94YnRVOW5jZzFzcVE4bQ$MNzk5BtR2vUhrp6qQEjRNw''
     CHR ''$'') = 6 \<and>
   decodeArgon2idHash ''$anything$v=19$m=32,t=2,p=4$cm94YnRVOW5jZzFzcVE4bQ$MNzk5BtR2vUhrp6qQEjRNw'' =
     Inr (\<lparr>Memory = 32, Iterations = 2, Parallelism = 4, SaltLength = 16, KeyLength = 16\<rparr>,
          ''roxbtU9ncg1sqQ8m'',
          [CHR ''0'', CHR 0xDC, CHR 0xE4, CHR 0xE4, CHR 0x1B, CHR ''Q'', CHR 0xDA, CHR 0xF5,
           CHR ''!'', CHR 0xAE, CHR 0x9E, CHR 0xAA, CHR ''@'', CHR ''H'', CHR 0xD1, CHR ''7''])"
proof -
  have a: "CHR ''$'' \<notin> set []" and f: "CHR ''$'' \<notin> set ''argon2id''"
    and f': "CHR ''$'' \<notin> set ''anything''"
    by simp_all
  show ?thesis
    using Argon2_scheme_field_ignored
      [of "[]" "''argon2id''" "[]" "''anything''"
        "''v=19$m=32,t=2,p=4$cm94YnRVOW5jZzFzcVE4bQ$MNzk5BtR2vUhrp6qQEjRNw''" fake "''test''"
        "''$anything$v=19$m=32,t=2,p=4$cm94YnRVOW5jZzFzcVE4bQ$MNzk5BtR2vUhrp6qQEjRNw''"
        "[32, 2, 4]" "''roxbtU9ncg1sqQ8m''"
        "[CHR ''0'', CHR 0xDC, CHR 0xE4, CHR 0xE4, CHR 0x1B, CHR ''Q'', CHR 0xDA, CHR 0xF5,
          CHR ''!'', CHR 0xAE, CHR 0x9E, CHR 0xAA, CHR ''@'', CHR ''H'', CHR 0xD1, CHR ''7'']"]
      a f f' Argon2_other_scheme_fields
    by simp
qed

end
